theory Spec2Isabelle
  imports Main "HOL-Library.Word"
begin

section \<open>Strings, bytes and hexadecimal text\<close>

text \<open>
  A JavaScript string is modelled as a \<open>string\<close>; each \<open>char\<close> stands for one code
  unit below 256. A Node \<open>Buffer\<close> is a list of bytes.
\<close>

type_synonym byte = "8 word"

text \<open>\<open>String.prototype.split\<close> with a one-character separator: the pieces between the
  separators, so a string with \<open>n\<close> separators gives \<open>n + 1\<close> pieces.\<close>

fun split :: "char \<Rightarrow> string \<Rightarrow> string list" where
  "split sep [] = [[]]"
| "split sep (c # cs) =
     (if c = sep then [] # split sep cs
      else (case split sep cs of
              [] \<Rightarrow> [[c]]
            | p # ps \<Rightarrow> (c # p) # ps))"

definition hexDigit :: "nat \<Rightarrow> char" where
  "hexDigit n = ''0123456789abcdef'' ! (n mod 16)"

text \<open>\<open>buf.toString('hex')\<close> and the \<open>'hex'\<close> output encoding of a cipher: two lower-case
  digits for each byte.\<close>

fun toHex :: "byte list \<Rightarrow> string" where
  "toHex [] = []"
| "toHex (b # bs) = hexDigit (unat b div 16) # hexDigit (unat b mod 16) # toHex bs"

definition hexVal :: "char \<Rightarrow> nat option" where
  "hexVal c =
     (let n = (of_char c :: nat) in
      if 48 \<le> n \<and> n \<le> 57 then Some (n - 48)
      else if 97 \<le> n \<and> n \<le> 102 then Some (n - 87)
      else if 65 \<le> n \<and> n \<le> 70 then Some (n - 55)
      else None)"

text \<open>\<open>Buffer.from(s, 'hex')\<close>: pairs of hexadecimal digits are decoded from the left;
  decoding stops at the first pair that is not two digits, and a single trailing character
  is dropped.\<close>

fun fromHex :: "string \<Rightarrow> byte list" where
  "fromHex (a # b # rest) =
     (case (hexVal a, hexVal b) of
        (Some h, Some l) \<Rightarrow> of_nat (16 * h + l) # fromHex rest
      | _ \<Rightarrow> [])"
| "fromHex _ = []"

section \<open>Encryption service (app/utils/encryption.ts)\<close>

text \<open>A JavaScript \<open>Error\<close>: its message and, for a transport error of an HTTP client,
  the status of \<open>error.response\<close>.\<close>

datatype error = Error (message: string) (status: "nat option")

text \<open>
  The operations of Node's \<open>crypto\<close> module that the service calls. They are library code,
  so they are parameters of the model:
  \<^item> \<open>sha256 s\<close> is \<open>createHash('sha256').update(s).digest()\<close>;
  \<^item> \<open>cipher key iv p\<close> is \<open>createCipheriv('aes-256-cbc', key, iv)\<close> followed by
    \<open>update(p, 'utf8')\<close> and \<open>final()\<close>, as bytes; \<open>None\<close> when the library throws;
  \<^item> \<open>decipher key iv ct\<close> is \<open>createDecipheriv('aes-256-cbc', key, iv)\<close> followed by
    \<open>update(ct)\<close> and \<open>final('utf8')\<close>; \<open>None\<close> when the library throws.
\<close>

record crypto =
  sha256 :: "string \<Rightarrow> byte list"
  cipher :: "byte list \<Rightarrow> byte list \<Rightarrow> string \<Rightarrow> byte list option"
  decipher :: "byte list \<Rightarrow> byte list \<Rightarrow> byte list \<Rightarrow> string option"

text \<open>\<open>getEncryptionKey\<close>: \<open>env\<close> is the value of \<open>process.env.ENCRYPTION_KEY\<close>
  (\<open>None\<close> when unset); \<open>||\<close> also replaces the empty string by the default.\<close>

definition getEncryptionKey :: "crypto \<Rightarrow> string option \<Rightarrow> error + byte list" where
  "getEncryptionKey c env =
     (let key = (case env of
                   None \<Rightarrow> ''default_encryption_key_for_development_only''
                 | Some k \<Rightarrow> if k = [] then ''default_encryption_key_for_development_only'' else k)
      in if take 4 key = ''hex:'' then
           (let buffer = fromHex (drop 4 key) in
            if length buffer \<noteq> 32
            then Inl (Error ''ENCRYPTION_KEY must be 32 bytes (64 hex characters)'' None)
            else Inr buffer)
         else Inr (sha256 c key))"

text \<open>\<open>encrypt\<close>: \<open>iv\<close> is the value drawn by \<open>crypto.randomBytes(16)\<close>. Every exception
  inside the \<open>try\<close> is replaced by the error \<open>Failed to encrypt data\<close>.\<close>

definition encrypt :: "crypto \<Rightarrow> string option \<Rightarrow> byte list \<Rightarrow> string \<Rightarrow> error + string" where
  "encrypt c env iv plaintext =
     (case getEncryptionKey c env of
        Inl e \<Rightarrow> Inl (Error ''Failed to encrypt data'' None)
      | Inr key \<Rightarrow>
          (case cipher c key iv plaintext of
             None \<Rightarrow> Inl (Error ''Failed to encrypt data'' None)
           | Some encrypted \<Rightarrow> Inr (toHex iv @ '':'' @ toHex encrypted)))"

text \<open>The \<open>'hex'\<close> input encoding of \<open>decipher.update\<close>: a text with an odd number of
  characters is refused with an exception (\<open>None\<close>); a text with an even number is decoded
  as \<open>Buffer.from\<close> decodes it.\<close>

definition hexInput :: "string \<Rightarrow> byte list option" where
  "hexInput s = (if even (length s) then Some (fromHex s) else None)"

text \<open>\<open>decrypt\<close>: every exception inside the \<open>try\<close>, the format error included, is
  replaced by the error \<open>Failed to decrypt data\<close>.\<close>

definition decrypt :: "crypto \<Rightarrow> string option \<Rightarrow> string \<Rightarrow> error + string" where
  "decrypt c env encryptedText =
     (let parts = split (CHR '':'') encryptedText in
      if length parts \<noteq> 2 then Inl (Error ''Failed to decrypt data'' None)
      else
        (let iv = fromHex (parts ! 0);
             encrypted = parts ! 1
         in case getEncryptionKey c env of
              Inl e \<Rightarrow> Inl (Error ''Failed to decrypt data'' None)
            | Inr key \<Rightarrow>
                (case hexInput encrypted of
                   None \<Rightarrow> Inl (Error ''Failed to decrypt data'' None)
                 | Some ct \<Rightarrow>
                     (case decipher c key iv ct of
                        None \<Rightarrow> Inl (Error ''Failed to decrypt data'' None)
                      | Some decrypted \<Rightarrow> Inr decrypted))))"

text \<open>A stand-in for the library with the same interface, used to run the service on
  concrete inputs: it insists on a 32-byte key and a 16-byte initialisation vector, as the
  library does, and shifts every code unit by the first byte of the vector.\<close>

definition stub_crypto :: crypto where
  "stub_crypto =
     \<lparr> sha256 = (\<lambda>s. replicate 32 (of_nat (length s))),
       cipher = (\<lambda>key iv p.
         if length key = 32 \<and> length iv = 16
         then Some (map (\<lambda>ch. of_nat (of_char ch) + hd iv) p) else None),
       decipher = (\<lambda>key iv ct.
         if length key = 32 \<and> length iv = 16
         then Some (map (\<lambda>b. char_of (unat (b - hd iv))) ct) else None) \<rparr>"

section \<open>Metafields service (app/utils/metafields.ts)\<close>

datatype provider = openaiProvider | deepseekProvider

text \<open>
  The shop behind a session. \<open>metafields\<close> maps a namespace and a key to the stored value.
  \<open>faults\<close> is the fate of the coming GraphQL calls, one entry per call: \<open>True\<close> when the
  call throws or, for a write, comes back with \<open>userErrors\<close>; a call beyond the end of the
  list goes through. A write that does not go through leaves the metafields as they were.
  \<open>invoked\<close> records which provider methods the content-generation facade has called.
\<close>

record world =
  metafields :: "(string \<times> string) \<rightharpoonup> string"
  faults :: "bool list"
  invoked :: "(provider \<times> string) list"

text \<open>\<open>getMetafield\<close>: \<open>null\<close> when the metafield does not exist and when the call throws.\<close>

definition getMetafield :: "world \<Rightarrow> string \<Rightarrow> string \<Rightarrow> string option \<times> world" where
  "getMetafield w namespace key =
     (case faults w of
        [] \<Rightarrow> (metafields w (namespace, key), w)
      | f # fs \<Rightarrow>
          if f then (None, w\<lparr>faults := fs\<rparr>)
          else (metafields w (namespace, key), w\<lparr>faults := fs\<rparr>))"

text \<open>\<open>setMetafield\<close>: \<open>false\<close> when the call throws or reports \<open>userErrors\<close>.\<close>

definition setMetafield :: "world \<Rightarrow> string \<Rightarrow> string \<Rightarrow> string \<Rightarrow> bool \<times> world" where
  "setMetafield w namespace key v =
     (case faults w of
        [] \<Rightarrow> (True, w\<lparr>metafields := (metafields w)((namespace, key) \<mapsto> v)\<rparr>)
      | f # fs \<Rightarrow>
          if f then (False, w\<lparr>faults := fs\<rparr>)
          else (True, w\<lparr>metafields := (metafields w)((namespace, key) \<mapsto> v), faults := fs\<rparr>))"

section \<open>API keys service (app/facades/apiKeys.ts)\<close>

definition API_KEY_NAMESPACE :: string where "API_KEY_NAMESPACE = ''apiservice''"
definition API_KEY_FIELD_KEY :: string where "API_KEY_FIELD_KEY = ''encrypted_key''"
definition API_KEY_PROVIDER_KEY :: string where "API_KEY_PROVIDER_KEY = ''provider''"

record ApiKeyData =
  provider :: string
  apiKey :: string

text \<open>A string or \<open>null\<close> is truthy when it is a non-empty string.\<close>

fun truthy :: "string option \<Rightarrow> bool" where
  "truthy None = False"
| "truthy (Some s) = (s \<noteq> [])"

text \<open>\<open>saveApiKey\<close>: \<open>iv\<close> is the random vector that \<open>encrypt\<close> draws. The results of the
  two writes are not looked at.\<close>

definition saveApiKey ::
  "crypto \<Rightarrow> string option \<Rightarrow> byte list \<Rightarrow> world \<Rightarrow> string \<Rightarrow> string \<Rightarrow> bool \<times> world" where
  "saveApiKey c env iv w prov key =
     (case encrypt c env iv key of
        Inl e \<Rightarrow> (False, w)
      | Inr encryptedKey \<Rightarrow>
          (let (r1, w1) = setMetafield w API_KEY_NAMESPACE API_KEY_FIELD_KEY encryptedKey;
               (r2, w2) = setMetafield w1 API_KEY_NAMESPACE API_KEY_PROVIDER_KEY prov
           in (True, w2)))"

text \<open>\<open>getApiKey\<close>: \<open>requested\<close> is the optional \<open>provider\<close> argument. A decryption error is
  caught and gives \<open>null\<close>.\<close>

definition getApiKey ::
  "crypto \<Rightarrow> string option \<Rightarrow> world \<Rightarrow> string option \<Rightarrow> ApiKeyData option \<times> world" where
  "getApiKey c env w requested =
     (let (encryptedKey, w1) = getMetafield w API_KEY_NAMESPACE API_KEY_FIELD_KEY in
      if \<not> truthy encryptedKey then (None, w1)
      else
        (let (storedProvider, w2) = getMetafield w1 API_KEY_NAMESPACE API_KEY_PROVIDER_KEY in
         if truthy requested \<and> storedProvider \<noteq> requested then (None, w2)
         else
           (case decrypt c env (the encryptedKey) of
              Inl e \<Rightarrow> (None, w2)
            | Inr k \<Rightarrow>
                (Some \<lparr> provider = (if truthy storedProvider then the storedProvider
                                     else ''unknown''),
                        apiKey = k \<rparr>, w2))))"

text \<open>\<open>deleteApiKey\<close>: the metafields are not removed but set to the empty string, and the
  results of the two writes are not looked at.\<close>

definition deleteApiKey :: "world \<Rightarrow> string \<Rightarrow> bool \<times> world" where
  "deleteApiKey w prov =
     (let (storedProvider, w1) = getMetafield w API_KEY_NAMESPACE API_KEY_PROVIDER_KEY in
      if storedProvider \<noteq> Some prov then (False, w1)
      else
        (let (r1, w2) = setMetafield w1 API_KEY_NAMESPACE API_KEY_FIELD_KEY [];
             (r2, w3) = setMetafield w2 API_KEY_NAMESPACE API_KEY_PROVIDER_KEY []
         in (True, w3)))"

text \<open>The store accepts the \<open>i\<close>-th coming GraphQL call.\<close>

definition goes_through :: "world \<Rightarrow> nat \<Rightarrow> bool" where
  "goes_through w i = (if i < length (faults w) then \<not> faults w ! i else True)"

section \<open>Validation schemas (app/models/schemas.ts)\<close>

text \<open>
  A value handed to a schema. \<open>JInt n\<close> is a number that is the integer \<open>n\<close>;
  \<open>JNonInt\<close> is any other number (a fraction, an infinity, \<open>NaN\<close>); \<open>JOther\<close> is
  \<open>null\<close>, a boolean or an object.
\<close>

datatype jsvalue =
    JUndefined
  | JInt int
  | JNonInt
  | JStr string
  | JArr "jsvalue list"
  | JOther

record RawOptions =
  raw_length :: jsvalue
  raw_tone :: jsvalue
  raw_includeKeywords :: jsvalue

text \<open>\<open>z.number().int().min(100, ...).max(500, ...)\<close>: the bounds of \<open>min\<close> and \<open>max\<close>
  are inclusive.\<close>

fun length_field :: "jsvalue \<Rightarrow> bool" where
  "length_field (JInt n) = (100 \<le> n \<and> n \<le> 500)"
| "length_field _ = False"

text \<open>\<open>z.enum(['professional', 'casual', 'enthusiastic']).optional()\<close>\<close>

fun tone_field :: "jsvalue \<Rightarrow> bool" where
  "tone_field JUndefined = True"
| "tone_field (JStr s) = (s = ''professional'' \<or> s = ''casual'' \<or> s = ''enthusiastic'')"
| "tone_field _ = False"

fun string_value :: "jsvalue \<Rightarrow> bool" where
  "string_value (JStr s) = True"
| "string_value _ = False"

text \<open>\<open>z.array(z.string()).optional()\<close>\<close>

fun includeKeywords_field :: "jsvalue \<Rightarrow> bool" where
  "includeKeywords_field JUndefined = True"
| "includeKeywords_field (JArr xs) = list_all string_value xs"
| "includeKeywords_field _ = False"

text \<open>\<open>GenerationOptionsSchema\<close>: whether \<open>parse\<close> returns rather than throws.\<close>

definition GenerationOptionsSchema :: "RawOptions \<Rightarrow> bool" where
  "GenerationOptionsSchema v =
     (length_field (raw_length v) \<and> tone_field (raw_tone v)
      \<and> includeKeywords_field (raw_includeKeywords v))"

section \<open>Parsing a model's reply (app/utils/ai-providers/openai.ts, deepseek.ts)\<close>

record ProductContent =
  title :: string
  description :: string
  seoTitle :: "string option"
  seoDescription :: "string option"
  keywords_field :: "string list option"

definition newline :: char where
  "newline = CHR 0x0A"

text \<open>The characters of the class \<open>\s\<close>, which are also the ones \<open>trim\<close> removes: tab,
  line feed, vertical tab, form feed, carriage return, space and no-break space.\<close>

definition isSpace :: "char \<Rightarrow> bool" where
  "isSpace c = (let n = (of_char c :: nat) in (9 \<le> n \<and> n \<le> 13) \<or> n = 32 \<or> n = 160)"

definition trim :: "string \<Rightarrow> string" where
  "trim s = rev (dropWhile isSpace (rev (dropWhile isSpace s)))"

text \<open>
  The part \<open>\s*\n\<close> of the section pattern, run on the text after the heading; the result
  is what follows the matched line feed. The star is greedy: it first takes the character
  and tries the rest, and only when that fails gives the character back to be the line
  feed. What follows in the pattern always matches, so no later failure comes back here.
\<close>

fun spacesThenNewline :: "string \<Rightarrow> string option" where
  "spacesThenNewline [] = None"
| "spacesThenNewline (c # cs) =
     (if isSpace c then
        (case spacesThenNewline cs of
           Some r \<Rightarrow> Some r
         | None \<Rightarrow> if c = newline then Some cs else None)
      else None)"

text \<open>The group \<open>([\s\S]*?)\<close> before the lookahead \<open>(?=\n# |$)\<close>: the star is lazy, so the
  group is the shortest text after which a line feed, \<open>#\<close> and a space follow, or the
  input ends.\<close>

fun lazyGroup :: "string \<Rightarrow> string" where
  "lazyGroup [] = []"
| "lazyGroup (c # cs) =
     (if take 3 (c # cs) = [newline, CHR ''#'', CHR '' ''] then [] else c # lazyGroup cs)"

text \<open>\<open>rawContent.match(/H\s*\n([\s\S]*?)(?=\n# |$)/)\<close> for a heading \<open>H\<close>: the group of
  the match at the leftmost position where the pattern matches, \<open>None\<close> for \<open>null\<close>.\<close>

fun matchSection :: "string \<Rightarrow> string \<Rightarrow> string option" where
  "matchSection heading [] = None"
| "matchSection heading (c # cs) =
     (if take (length heading) (c # cs) = heading then
        (case spacesThenNewline (drop (length heading) (c # cs)) of
           Some r \<Rightarrow> Some (lazyGroup r)
         | None \<Rightarrow> matchSection heading cs)
      else matchSection heading cs)"

text \<open>\<open>m && m[1]\<close>: there is a match and its group is not empty.\<close>

fun groupOf :: "string option \<Rightarrow> string option" where
  "groupOf None = None"
| "groupOf (Some g) = (if g = [] then None else Some g)"

text \<open>\<open>parseGeneratedContent\<close>, the same text in both provider classes.\<close>

definition parseGeneratedContent :: "string \<Rightarrow> ProductContent" where
  "parseGeneratedContent rawContent =
     \<lparr> title = (case groupOf (matchSection ''# TITLE'' rawContent) of
                  None \<Rightarrow> [] | Some g \<Rightarrow> trim g),
       description = (case groupOf (matchSection ''# DESCRIPTION'' rawContent) of
                        None \<Rightarrow> [] | Some g \<Rightarrow> trim g),
       seoTitle = map_option trim (groupOf (matchSection ''# SEO_TITLE'' rawContent)),
       seoDescription =
         map_option trim (groupOf (matchSection ''# SEO_DESCRIPTION'' rawContent)),
       keywords_field =
         map_option (\<lambda>g. filter (\<lambda>keyword. length keyword > 0)
                              (map trim (split (CHR '','') (trim g))))
           (groupOf (matchSection ''# KEYWORDS'' rawContent)) \<rparr>"

section \<open>Providers (app/utils/ai-providers/openai.ts, deepseek.ts)\<close>

datatype tone = professional | casual | enthusiastic

record GenerationOptions =
  length_opt :: int
  tone_opt :: "tone option"
  includeKeywords :: "string list option"

record ProductData =
  product_id :: string
  product_title :: string
  product_description :: string
  product_images :: "string list"

record Metadata =
  model :: string
  promptTokens :: "nat option"
  completionTokens :: "nat option"
  totalTokens :: "nat option"

record ContentGenerationResult =
  success :: bool
  content :: "ProductContent option"
  error :: "string option"
  errorCode :: "string option"
  metadata :: "Metadata option"

text \<open>A negative result: \<open>{success: false, error, errorCode}\<close>.\<close>

definition failure :: "string \<Rightarrow> string \<Rightarrow> ContentGenerationResult" where
  "failure msg code =
     \<lparr> success = False, content = None, error = Some msg, errorCode = Some code,
       metadata = None \<rparr>"

text \<open>
  What a provider sends to its remote model. The prompt is a fixed template filled with
  these values; its text goes to the remote model only, so the request is kept as the
  values the template is filled with.
\<close>

datatype request =
    ProductPrompt ProductData string GenerationOptions
  | RegenerationPrompt ProductContent string GenerationOptions

record completion =
  text_of :: "string option"
  usage :: "(nat \<times> nat \<times> nat) option"

text \<open>
  The remote model, reached with an API key: \<open>Inr\<close> is the first choice of the reply
  (\<open>choices[0].message?.content\<close> and \<open>usage\<close>), \<open>Inl\<close> is the exception thrown while the
  client is made, the request is sent or the reply is read.
\<close>

type_synonym llm = "provider \<Rightarrow> string \<Rightarrow> request \<Rightarrow> error + completion"

definition generated :: "string \<Rightarrow> completion \<Rightarrow> ContentGenerationResult" where
  "generated m r =
     \<lparr> success = True,
       content = Some (parseGeneratedContent (case text_of r of None \<Rightarrow> [] | Some t \<Rightarrow> t)),
       error = None, errorCode = None,
       metadata = Some \<lparr> model = m,
                         promptTokens = map_option fst (usage r),
                         completionTokens = map_option (fst \<circ> snd) (usage r),
                         totalTokens = map_option (snd \<circ> snd) (usage r) \<rparr> \<rparr>"

text \<open>\<open>error.message || fallback\<close>\<close>

definition messageOr :: "error \<Rightarrow> string \<Rightarrow> string" where
  "messageOr e fallback = (if message e = [] then fallback else message e)"

definition openai_generateProductContent ::
  "llm \<Rightarrow> string \<Rightarrow> ProductData \<Rightarrow> string \<Rightarrow> GenerationOptions \<Rightarrow> ContentGenerationResult" where
  "openai_generateProductContent remote key productData customPrompt options =
     (case remote openaiProvider key (ProductPrompt productData customPrompt options) of
        Inr response \<Rightarrow> generated ''gpt-4'' response
      | Inl e \<Rightarrow>
          if status e = Some 401 then
            failure ''Invalid API key. Please check your OpenAI API key in the settings.''
              ''INVALID_API_KEY''
          else if status e = Some 429 then
            failure ''OpenAI rate limit exceeded. Please try again later.''
              ''RATE_LIMIT_EXCEEDED''
          else
            failure (messageOr e ''An error occurred while generating content with OpenAI.'')
              ''OPENAI_ERROR'')"

definition openai_regenerateContent ::
  "llm \<Rightarrow> string \<Rightarrow> ContentGenerationResult \<Rightarrow> string \<Rightarrow> GenerationOptions
     \<Rightarrow> ContentGenerationResult" where
  "openai_regenerateContent remote key previousResult feedback options =
     (if \<not> success previousResult \<or> content previousResult = None then
        failure ''No previous content to regenerate'' ''NO_PREVIOUS_CONTENT''
      else
        (case remote openaiProvider key
                (RegenerationPrompt (the (content previousResult)) feedback options) of
           Inr response \<Rightarrow> generated ''gpt-4'' response
         | Inl e \<Rightarrow>
             failure (messageOr e ''An error occurred while regenerating content with OpenAI.'')
               ''OPENAI_REGENERATION_ERROR''))"

definition deepseek_generateProductContent ::
  "llm \<Rightarrow> string \<Rightarrow> ProductData \<Rightarrow> string \<Rightarrow> GenerationOptions \<Rightarrow> ContentGenerationResult" where
  "deepseek_generateProductContent remote key productData customPrompt options =
     (case remote deepseekProvider key (ProductPrompt productData customPrompt options) of
        Inr response \<Rightarrow> generated ''deepseek-coder-v2'' response
      | Inl e \<Rightarrow>
          if status e = Some 401 then
            failure ''Invalid API key. Please check your DeepSeek API key in the settings.''
              ''INVALID_API_KEY''
          else if status e = Some 429 then
            failure ''DeepSeek rate limit exceeded. Please try again later.''
              ''RATE_LIMIT_EXCEEDED''
          else
            failure (messageOr e ''An error occurred while generating content with DeepSeek.'')
              ''DEEPSEEK_ERROR'')"

definition deepseek_regenerateContent ::
  "llm \<Rightarrow> string \<Rightarrow> ContentGenerationResult \<Rightarrow> string \<Rightarrow> GenerationOptions
     \<Rightarrow> ContentGenerationResult" where
  "deepseek_regenerateContent remote key previousResult feedback options =
     (if \<not> success previousResult \<or> content previousResult = None then
        failure ''No previous content to regenerate'' ''NO_PREVIOUS_CONTENT''
      else
        (case remote deepseekProvider key
                (RegenerationPrompt (the (content previousResult)) feedback options) of
           Inr response \<Rightarrow> generated ''deepseek-coder-v2'' response
         | Inl e \<Rightarrow>
             failure
               (messageOr e ''An error occurred while regenerating content with DeepSeek.'')
               ''DEEPSEEK_REGENERATION_ERROR''))"

section \<open>Content generation facade (app/facades/aiService.ts)\<close>

text \<open>\<open>toLowerCase\<close>: the letters \<open>A\<close> to \<open>Z\<close>, and the accented capitals from \<open>0xC0\<close> to
  \<open>0xDE\<close> (the multiplication sign \<open>0xD7\<close> apart), move up by 32.\<close>

definition lowerChar :: "char \<Rightarrow> char" where
  "lowerChar c =
     (let n = (of_char c :: nat) in
      if (65 \<le> n \<and> n \<le> 90) \<or> (192 \<le> n \<and> n \<le> 222 \<and> n \<noteq> 215) then char_of (n + 32)
      else c)"

definition toLowerCase :: "string \<Rightarrow> string" where
  "toLowerCase s = map lowerChar s"

text \<open>\<open>getProvider\<close>: a \<open>switch\<close> on the lower-cased identifier, with the case labels as
  the source spells them.\<close>

definition getProvider :: "string \<Rightarrow> error + provider" where
  "getProvider prov =
     (let p = toLowerCase prov in
      if p = ''openaiApiKey'' then Inr openaiProvider
      else if p = ''deepseekApiKey'' then Inr deepseekProvider
      else Inl (Error (''Unsupported AI provider: '' @ prov) None))"

text \<open>A call of a method of the selected provider object.\<close>

fun provider_generateProductContent ::
  "provider \<Rightarrow> llm \<Rightarrow> string \<Rightarrow> ProductData \<Rightarrow> string \<Rightarrow> GenerationOptions
     \<Rightarrow> ContentGenerationResult" where
  "provider_generateProductContent openaiProvider = openai_generateProductContent"
| "provider_generateProductContent deepseekProvider = deepseek_generateProductContent"

fun provider_regenerateContent ::
  "provider \<Rightarrow> llm \<Rightarrow> string \<Rightarrow> ContentGenerationResult \<Rightarrow> string \<Rightarrow> GenerationOptions
     \<Rightarrow> ContentGenerationResult" where
  "provider_regenerateContent openaiProvider = openai_regenerateContent"
| "provider_regenerateContent deepseekProvider = deepseek_regenerateContent"

definition called :: "provider \<Rightarrow> string \<Rightarrow> world \<Rightarrow> world" where
  "called p method w = w\<lparr>invoked := invoked w @ [(p, method)]\<rparr>"

text \<open>\<open>generateProductContent\<close> of the facade. \<open>getApiKey\<close> and the provider methods
  catch their own exceptions, so the \<open>catch\<close> of the facade only sees the error that
  \<open>getProvider\<close> throws.\<close>

definition facade_generateProductContent ::
  "crypto \<Rightarrow> string option \<Rightarrow> llm \<Rightarrow> world \<Rightarrow> ProductData \<Rightarrow> string \<Rightarrow> GenerationOptions
     \<Rightarrow> ContentGenerationResult \<times> world" where
  "facade_generateProductContent c env remote w productData customPrompt options =
     (let (apiKeyData, w1) = getApiKey c env w None in
      case apiKeyData of
        None \<Rightarrow>
          (failure ''No API key configured. Please configure an API key in the settings.''
             ''NO_API_KEY'', w1)
      | Some d \<Rightarrow>
          (case getProvider (provider d) of
             Inl e \<Rightarrow> (failure (message e) ''GENERATION_FAILED'', w1)
           | Inr p \<Rightarrow>
               (provider_generateProductContent p remote (apiKey d) productData customPrompt
                  options,
                called p ''generateProductContent'' w1)))"

text \<open>\<open>regenerateContent\<close> of the facade.\<close>

definition facade_regenerateContent ::
  "crypto \<Rightarrow> string option \<Rightarrow> llm \<Rightarrow> world \<Rightarrow> ContentGenerationResult \<Rightarrow> string
     \<Rightarrow> GenerationOptions \<Rightarrow> ContentGenerationResult \<times> world" where
  "facade_regenerateContent c env remote w previousResult feedback options =
     (let (apiKeyData, w1) = getApiKey c env w None in
      case apiKeyData of
        None \<Rightarrow>
          (failure ''No API key configured. Please configure an API key in the settings.''
             ''NO_API_KEY'', w1)
      | Some d \<Rightarrow>
          (case getProvider (provider d) of
             Inl e \<Rightarrow> (failure (message e) ''REGENERATION_FAILED'', w1)
           | Inr p \<Rightarrow>
               (provider_regenerateContent p remote (apiKey d) previousResult feedback options,
                called p ''regenerateContent'' w1)))"

section \<open>Concrete shops and inputs\<close>

text \<open>A shop with no metafields, and one that holds a DeepSeek credential: the key
  \<open>sk-abc\<close>, encrypted by the stand-in cipher with the vector of sixteen bytes \<open>01\<close>.\<close>

definition empty_shop :: world where
  "empty_shop = \<lparr> metafields = Map.empty, faults = [], invoked = [] \<rparr>"

definition deepseek_shop :: world where
  "deepseek_shop =
     \<lparr> metafields =
         [(API_KEY_NAMESPACE, API_KEY_FIELD_KEY) \<mapsto>
            ''01010101010101010101010101010101:746c2e626364'',
          (API_KEY_NAMESPACE, API_KEY_PROVIDER_KEY) \<mapsto> ''deepseekApiKey''],
       faults = [], invoked = [] \<rparr>"

text \<open>A remote model that cannot be reached, and the default options of the routes.\<close>

definition no_reply :: llm where
  "no_reply p k r = Inl (Error ''Network Error'' None)"

definition options0 :: GenerationOptions where
  "options0 = \<lparr> length_opt = 250, tone_opt = None, includeKeywords = None \<rparr>"

text \<open>The DeepSeek shop when the store lets the next read through and refuses the two
  writes after it, and the empty shop when the store accepts the next write and refuses
  the one after it.\<close>

definition stubborn_shop :: world where
  "stubborn_shop = deepseek_shop \<lparr> faults := [False, True, True] \<rparr>"

definition flaky_shop :: world where
  "flaky_shop = empty_shop \<lparr> faults := [False, True] \<rparr>"

section \<open>Properties of the encryption service\<close>

lemma split_not_Nil: "split sep s \<noteq> []"
  by (induction s) (auto split: list.splits)

lemma length_split: "length (split sep s) = Suc (count_list s sep)"
proof (induction s)
  case Nil
  show ?case by simp
next
  case (Cons c cs)
  then show ?case
    by (cases "split sep cs") (auto simp: split_not_Nil)
qed

text \<open>
  Claim C7. A token whose number of \<open>:\<close> delimiters is zero, or two or more, makes
  \<open>decrypt\<close> fail with the decryption error, whatever the key configuration and the
  cipher library do; no plaintext is returned.
\<close>

theorem decrypt_rejects_bad_delimiter_count:
  "count_list token (CHR '':'') \<noteq> 1 \<Longrightarrow>
     decrypt c env token = Inl (Error ''Failed to decrypt data'' None)"
  by (simp add: decrypt_def length_split)

theorem decrypt_rejects_bad_delimiter_count_witness:
  "decrypt stub_crypto None ''0101'' = Inl (Error ''Failed to decrypt data'' None)
   \<and> decrypt stub_crypto None ''01:74:6c'' = Inl (Error ''Failed to decrypt data'' None)"
  using decrypt_rejects_bad_delimiter_count [of "''0101''" stub_crypto None]
    decrypt_rejects_bad_delimiter_count [of "''01:74:6c''" stub_crypto None]
  by simp

lemma hexDigits_checked:
  "list_all (\<lambda>n. hexVal (hexDigit n) = Some n \<and> hexDigit n \<noteq> CHR '':'') [0..<16]"
  by code_simp

lemma hexVal_hexDigit: "n < 16 \<Longrightarrow> hexVal (hexDigit n) = Some n"
  using hexDigits_checked by (simp add: list_all_iff)

lemma hexDigit_not_colon: "hexDigit n \<noteq> CHR '':''"
proof -
  have "hexDigit (n mod 16) \<noteq> CHR '':''"
    using hexDigits_checked by (simp add: list_all_iff)
  then show ?thesis
    by (simp add: hexDigit_def)
qed

lemma byte_nibbles: "(word_of_nat (16 * (unat b div 16) + unat b mod 16) :: byte) = b"
  by simp

lemma fromHex_toHex: "fromHex (toHex bs @ rest) = bs @ fromHex rest"
proof (induction bs)
  case Nil
  show ?case by simp
next
  case (Cons b bs)
  have "unat b < 256"
    using unsigned_less [of b, where 'a = nat] by simp
  then have "unat b div 16 < 16" by arith
  then have hi: "hexVal (hexDigit (unat b div 16)) = Some (unat b div 16)"
    by (rule hexVal_hexDigit)
  have lo: "hexVal (hexDigit (unat b mod 16)) = Some (unat b mod 16)"
    by (intro hexVal_hexDigit) simp
  show ?case
    by (simp add: hi lo Cons.IH byte_nibbles del: of_nat_add of_nat_mult)
qed

lemma colon_notin_toHex: "CHR '':'' \<notin> set (toHex bs)"
  by (induction bs) (simp_all add: hexDigit_not_colon [THEN not_sym])

lemma split_append_sep:
  "sep \<notin> set a \<Longrightarrow> split sep (a @ sep # b) = a # split sep b"
  by (induction a) (auto split: list.splits)

lemma split_no_sep: "sep \<notin> set a \<Longrightarrow> split sep a = [a]"
  by (induction a) (auto split: list.splits)

lemma split_token:
  "split (CHR '':'') (toHex iv @ CHR '':'' # toHex ct) = [toHex iv, toHex ct]"
proof -
  have "split (CHR '':'') (toHex iv @ CHR '':'' # toHex ct) = toHex iv # split (CHR '':'') (toHex ct)"
    by (rule split_append_sep [OF colon_notin_toHex])
  also have "split (CHR '':'') (toHex ct) = [toHex ct]"
    by (rule split_no_sep [OF colon_notin_toHex])
  finally show ?thesis .
qed



lemma fromHex_toHex_id: "fromHex (toHex bs) = bs"
  using fromHex_toHex [of bs "[]"] by simp

lemma hexInput_toHex: "hexInput (toHex bs) = Some bs"
proof -
  have "even (length (toHex bs))"
    by (induction bs) simp_all
  then show ?thesis
    by (simp add: hexInput_def fromHex_toHex_id)
qed

lemma toHex_inj: "toHex a = toHex b \<Longrightarrow> a = b"
  by (drule arg_cong [where f = fromHex]) (simp only: fromHex_toHex_id)

lemma encrypt_Inr:
  "encrypt c env iv P = Inr t \<Longrightarrow>
     \<exists>key ct. getEncryptionKey c env = Inr key \<and> cipher c key iv P = Some ct
       \<and> t = toHex iv @ '':'' @ toHex ct"
  by (auto simp: encrypt_def split: sum.splits option.splits)

text \<open>
  Claim C3. Under a key configuration from which \<open>getEncryptionKey\<close> returns a key, and for
  a plaintext \<open>P\<close> and a vector \<open>iv\<close> at which the cipher of the library is undone by its
  decipher, \<open>encrypt\<close> returns a token and \<open>decrypt\<close> of that token is \<open>P\<close>. An encryption
  of the same \<open>P\<close> with any other vector gives another token: the text before the
  delimiter, the vector in hexadecimal, is different.
\<close>

theorem encrypt_decrypt_roundtrip:
  assumes key: "getEncryptionKey c env = Inr key"
    and enc: "cipher c key iv P = Some ct"
    and dec: "decipher c key iv ct = Some P"
  shows "\<exists>t. encrypt c env iv P = Inr t \<and> decrypt c env t = Inr P \<and>
           (\<forall>iv' t'. iv' \<noteq> iv \<and> encrypt c env iv' P = Inr t' \<longrightarrow>
              t' \<noteq> t \<and> hd (split (CHR '':'') t') \<noteq> hd (split (CHR '':'') t))"
proof -
  let ?t = "toHex iv @ '':'' @ toHex ct"
  have e: "encrypt c env iv P = Inr ?t"
    by (simp add: encrypt_def key enc)
  have d: "decrypt c env ?t = Inr P"
    by (simp add: decrypt_def split_token fromHex_toHex_id hexInput_toHex key dec)
  have fresh: "t' \<noteq> ?t \<and> hd (split (CHR '':'') t') \<noteq> hd (split (CHR '':'') ?t)"
    if "iv' \<noteq> iv" and "encrypt c env iv' P = Inr t'" for iv' t'
  proof -
    from that(2) obtain ct' where t': "t' = toHex iv' @ '':'' @ toHex ct'"
      using encrypt_Inr by blast
    have "toHex iv' \<noteq> toHex iv"
      using that(1) toHex_inj by blast
    then have "hd (split (CHR '':'') t') \<noteq> hd (split (CHR '':'') ?t)"
      by (simp add: t' split_token)
    then show ?thesis by auto
  qed
  show ?thesis
    using e d fresh by blast
qed

theorem encrypt_decrypt_roundtrip_witness:
  "\<exists>t. encrypt stub_crypto None (replicate 16 1) ''sk-abc'' = Inr t
       \<and> decrypt stub_crypto None t = Inr ''sk-abc''
       \<and> (\<forall>iv' t'. iv' \<noteq> replicate 16 1
              \<and> encrypt stub_crypto None iv' ''sk-abc'' = Inr t' \<longrightarrow>
            t' \<noteq> t \<and> hd (split (CHR '':'') t') \<noteq> hd (split (CHR '':'') t))"
proof -
  have k: "getEncryptionKey stub_crypto None = Inr (replicate 32 43)"
    by (simp add: getEncryptionKey_def stub_crypto_def)
  have e: "cipher stub_crypto (replicate 32 43) (replicate 16 1) ''sk-abc''
             = Some [0x74, 0x6c, 0x2e, 0x62, 0x63, 0x64]"
    by (simp add: stub_crypto_def)
  have d: "decipher stub_crypto (replicate 32 43) (replicate 16 1)
             [0x74, 0x6c, 0x2e, 0x62, 0x63, 0x64] = Some ''sk-abc''"
    by code_simp
  show ?thesis
    by (rule encrypt_decrypt_roundtrip [OF k e d])
qed

section \<open>Properties of provider selection\<close>

lemma lowerChar_not_A: "lowerChar c \<noteq> CHR ''A''"
proof -
  have "of_char (lowerChar c) \<noteq> (65::nat)"
    by (auto simp: lowerChar_def Let_def)
  then show ?thesis by auto
qed

lemma toLowerCase_no_A: "CHR ''A'' \<notin> set (toLowerCase s)"
  by (auto simp: toLowerCase_def lowerChar_not_A [THEN not_sym])

text \<open>No identifier at all selects a provider.\<close>

lemma getProvider_throws:
  "getProvider p = Inl (Error (''Unsupported AI provider: '' @ p) None)"
proof -
  have "toLowerCase p \<noteq> ''openaiApiKey''" "toLowerCase p \<noteq> ''deepseekApiKey''"
    using toLowerCase_no_A [of p] by auto
  then show ?thesis by (simp add: getProvider_def)
qed

text \<open>
  Claim C1, at the two identifiers the settings form stores. The \<open>switch\<close> of
  \<open>getProvider\<close> compares the lower-cased identifier with labels that contain capital
  letters, so neither identifier selects its provider: both end in the default branch with
  the unsupported-provider error.
\<close>

theorem getProvider_rejects_known_identifiers:
  "getProvider ''openaiApiKey''
     = Inl (Error ''Unsupported AI provider: openaiApiKey'' None)
   \<and> getProvider ''deepseekApiKey''
     = Inl (Error ''Unsupported AI provider: deepseekApiKey'' None)"
  by code_simp

section \<open>Properties of the parser and of the schema\<close>

text \<open>
  Claim C6. On the reply with the sections \<open>TITLE\<close>, \<open>DESCRIPTION\<close> and \<open>KEYWORDS\<close> of the
  specification's example, \<open>parseGeneratedContent\<close> gives the title \<open>Foo\<close>, the
  description \<open>Bar baz\<close> and the keywords \<open>a\<close>, \<open>b\<close>, \<open>b\<close>: the duplicate stays, the
  empty piece after the last comma goes, and both SEO fields are absent.
\<close>

theorem parse_example:
  "parseGeneratedContent
     (''# TITLE'' @ [newline] @ ''Foo'' @ [newline] @ ''# DESCRIPTION'' @ [newline]
        @ ''Bar baz'' @ [newline] @ ''# KEYWORDS'' @ [newline] @ ''a, b, b, '' @ [newline])
   = \<lparr> title = ''Foo'', description = ''Bar baz'', seoTitle = None, seoDescription = None,
       keywords_field = Some [''a'', ''b'', ''b''] \<rparr>"
  by (simp add: parseGeneratedContent_def newline_def isSpace_def trim_def)

text \<open>
  Claim C8. An options object whose length is the integer \<open>n\<close>, and whose optional fields
  are absent or valid, passes \<open>GenerationOptionsSchema\<close> exactly when \<open>100 \<le> n \<le> 500\<close>; so
  50 and 600 are rejected, 100 and 500 accepted.
\<close>

theorem length_bounds:
  "(tone_field t \<and> includeKeywords_field k \<longrightarrow>
      GenerationOptionsSchema \<lparr> raw_length = JInt n, raw_tone = t, raw_includeKeywords = k \<rparr>
        = (100 \<le> n \<and> n \<le> 500))
   \<and> \<not> GenerationOptionsSchema
         \<lparr> raw_length = JInt 50, raw_tone = JUndefined, raw_includeKeywords = JUndefined \<rparr>
   \<and> \<not> GenerationOptionsSchema
         \<lparr> raw_length = JInt 600, raw_tone = JUndefined, raw_includeKeywords = JUndefined \<rparr>
   \<and> GenerationOptionsSchema
         \<lparr> raw_length = JInt 100, raw_tone = JUndefined, raw_includeKeywords = JUndefined \<rparr>
   \<and> GenerationOptionsSchema
         \<lparr> raw_length = JInt 500, raw_tone = JUndefined, raw_includeKeywords = JUndefined \<rparr>"
  by (simp add: GenerationOptionsSchema_def)

theorem length_bounds_witness:
  "tone_field (JStr ''casual'') \<and> includeKeywords_field (JArr [JStr ''wool''])
   \<and> GenerationOptionsSchema
         \<lparr> raw_length = JInt 250, raw_tone = JStr ''casual'',
           raw_includeKeywords = JArr [JStr ''wool''] \<rparr>
   \<and> \<not> GenerationOptionsSchema
         \<lparr> raw_length = JInt 99, raw_tone = JStr ''casual'',
           raw_includeKeywords = JArr [JStr ''wool''] \<rparr>"
  using length_bounds [of "JStr ''casual''" "JArr [JStr ''wool'']" 250]
    length_bounds [of "JStr ''casual''" "JArr [JStr ''wool'']" 99]
  by simp

section \<open>Properties of the API keys service\<close>

lemmas shop_defs = getApiKey_def getMetafield_def setMetafield_def deleteApiKey_def
  saveApiKey_def API_KEY_NAMESPACE_def API_KEY_FIELD_KEY_def API_KEY_PROVIDER_KEY_def

lemma getMetafield_frame:
  "metafields (snd (getMetafield w ns k)) = metafields w"
  "invoked (snd (getMetafield w ns k)) = invoked w"
  by (simp_all add: getMetafield_def split: list.splits)

lemma getMetafield_value:
  "fst (getMetafield w ns k) = None \<or> fst (getMetafield w ns k) = metafields w (ns, k)"
  by (simp add: getMetafield_def split: list.splits)

lemma getApiKey_frame:
  "metafields (snd (getApiKey c env w r)) = metafields w \<and>
   invoked (snd (getApiKey c env w r)) = invoked w"
proof -
  obtain ek w1 where g1: "getMetafield w API_KEY_NAMESPACE API_KEY_FIELD_KEY = (ek, w1)"
    by (cases "getMetafield w API_KEY_NAMESPACE API_KEY_FIELD_KEY")
  obtain sp w2 where g2: "getMetafield w1 API_KEY_NAMESPACE API_KEY_PROVIDER_KEY = (sp, w2)"
    by (cases "getMetafield w1 API_KEY_NAMESPACE API_KEY_PROVIDER_KEY")
  have f1: "metafields w1 = metafields w" "invoked w1 = invoked w"
    using getMetafield_frame [of w API_KEY_NAMESPACE API_KEY_FIELD_KEY] g1 by simp_all
  have f2: "metafields w2 = metafields w1" "invoked w2 = invoked w1"
    using getMetafield_frame [of w1 API_KEY_NAMESPACE API_KEY_PROVIDER_KEY] g2 by simp_all
  show ?thesis
    by (simp add: getApiKey_def g1 g2 f1 f2 split: sum.splits)
qed

text \<open>
  Claim C5. When the shop's stored provider identifier is not \<open>p\<close>, \<open>deleteApiKey\<close> for
  \<open>p\<close> returns \<open>false\<close> and leaves every metafield as it was.
\<close>

theorem delete_other_provider:
  assumes "metafields w (API_KEY_NAMESPACE, API_KEY_PROVIDER_KEY) \<noteq> Some p"
  shows "fst (deleteApiKey w p) = False
         \<and> metafields (snd (deleteApiKey w p)) = metafields w"
proof -
  obtain sp w1 where g: "getMetafield w API_KEY_NAMESPACE API_KEY_PROVIDER_KEY = (sp, w1)"
    by (cases "getMetafield w API_KEY_NAMESPACE API_KEY_PROVIDER_KEY")
  have "sp \<noteq> Some p"
    using getMetafield_value [of w API_KEY_NAMESPACE API_KEY_PROVIDER_KEY] g assms by auto
  moreover have "metafields w1 = metafields w"
    using getMetafield_frame(1) [of w API_KEY_NAMESPACE API_KEY_PROVIDER_KEY] g by simp
  ultimately show ?thesis
    by (simp add: deleteApiKey_def g)
qed

theorem delete_other_provider_witness:
  "metafields deepseek_shop (API_KEY_NAMESPACE, API_KEY_PROVIDER_KEY) \<noteq> Some ''openaiApiKey''
   \<and> fst (deleteApiKey deepseek_shop ''openaiApiKey'') = False
   \<and> metafields (snd (deleteApiKey deepseek_shop ''openaiApiKey'')) = metafields deepseek_shop"
proof -
  have h: "metafields deepseek_shop (API_KEY_NAMESPACE, API_KEY_PROVIDER_KEY)
             \<noteq> Some ''openaiApiKey''"
    by (simp add: deepseek_shop_def shop_defs)
  show ?thesis
    using h delete_other_provider [OF h] by simp
qed

lemma decrypt_stub:
  "decrypt stub_crypto None ''01010101010101010101010101010101:746c2e626364'' = Inr ''sk-abc''"
  by code_simp

lemma encrypt_stub:
  "encrypt stub_crypto None (replicate 16 1) ''sk-abc''
     = Inr ''01010101010101010101010101010101:746c2e626364''"
  by code_simp

lemma call_faults:
  "faults (snd (getMetafield w ns k)) = tl (faults w)"
  "faults (snd (setMetafield w ns k v)) = tl (faults w)"
  by (simp_all add: getMetafield_def setMetafield_def split: list.splits)

lemma goes_through_next:
  "faults w' = tl (faults w) \<Longrightarrow> goes_through w' i = goes_through w (Suc i)"
  by (cases "faults w") (simp_all add: goes_through_def)

lemma setMetafield_accepted:
  "goes_through w 0 \<Longrightarrow>
     metafields (snd (setMetafield w ns k v)) = (metafields w)((ns, k) \<mapsto> v)"
  by (cases "faults w") (auto simp: setMetafield_def goes_through_def)

lemma setMetafield_elsewhere:
  "(ns', k') \<noteq> (ns, k) \<Longrightarrow>
     metafields (snd (setMetafield w ns k v)) (ns', k') = metafields w (ns', k')"
  by (cases "faults w") (auto simp: setMetafield_def)

lemma field_keys_differ:
  "(API_KEY_NAMESPACE, API_KEY_FIELD_KEY) \<noteq> (API_KEY_NAMESPACE, API_KEY_PROVIDER_KEY)"
  by (simp add: API_KEY_FIELD_KEY_def API_KEY_PROVIDER_KEY_def)

lemma getApiKey_blank:
  assumes "metafields w (API_KEY_NAMESPACE, API_KEY_FIELD_KEY) = Some []"
  shows "fst (getApiKey c env w q) = None"
proof -
  obtain ek w1 where g: "getMetafield w API_KEY_NAMESPACE API_KEY_FIELD_KEY = (ek, w1)"
    by (cases "getMetafield w API_KEY_NAMESPACE API_KEY_FIELD_KEY")
  have "\<not> truthy ek"
    using getMetafield_value [of w API_KEY_NAMESPACE API_KEY_FIELD_KEY] g assms by auto
  then show ?thesis
    by (simp add: getApiKey_def g)
qed

text \<open>
  Claim C10, as the code has it. \<open>deleteApiKey\<close> does not look at the results of its
  writes, so \<open>true\<close> alone does not say that anything was cleared. When it returns \<open>true\<close>
  and the store accepted the write to the encrypted-key metafield, that metafield holds the
  empty string and \<open>getApiKey\<close> on the resulting shop returns \<open>null\<close>; when the write to
  the provider metafield was accepted too, it holds the empty string as well. Neither
  metafield is removed.
\<close>

theorem delete_then_get:
  assumes del: "fst (deleteApiKey w p)"
    and key_write: "goes_through w 1"
  shows "metafields (snd (deleteApiKey w p)) (API_KEY_NAMESPACE, API_KEY_FIELD_KEY) = Some []
         \<and> fst (getApiKey c env (snd (deleteApiKey w p)) q) = None
         \<and> (goes_through w 2 \<longrightarrow>
              metafields (snd (deleteApiKey w p)) (API_KEY_NAMESPACE, API_KEY_PROVIDER_KEY)
                = Some [])"
proof -
  obtain sp w1 where g: "getMetafield w API_KEY_NAMESPACE API_KEY_PROVIDER_KEY = (sp, w1)"
    by (cases "getMetafield w API_KEY_NAMESPACE API_KEY_PROVIDER_KEY")
  obtain r1 w2 where s1: "setMetafield w1 API_KEY_NAMESPACE API_KEY_FIELD_KEY [] = (r1, w2)"
    by (cases "setMetafield w1 API_KEY_NAMESPACE API_KEY_FIELD_KEY []")
  obtain r2 w3 where s2: "setMetafield w2 API_KEY_NAMESPACE API_KEY_PROVIDER_KEY [] = (r2, w3)"
    by (cases "setMetafield w2 API_KEY_NAMESPACE API_KEY_PROVIDER_KEY []")
  have sp: "sp = Some p"
    using del by (simp add: deleteApiKey_def g split: if_splits)
  have res: "snd (deleteApiKey w p) = w3"
    by (simp add: deleteApiKey_def g s1 s2 sp)
  have f1: "faults w1 = tl (faults w)"
    using call_faults(1) [of w API_KEY_NAMESPACE API_KEY_PROVIDER_KEY] g by simp
  have f2: "faults w2 = tl (faults w1)"
    using call_faults(2) [of w1 API_KEY_NAMESPACE API_KEY_FIELD_KEY "[]"] s1 by simp
  have "goes_through w1 0"
    using key_write goes_through_next [OF f1, of 0] by simp
  then have m2: "metafields w2 (API_KEY_NAMESPACE, API_KEY_FIELD_KEY) = Some []"
    using setMetafield_accepted [of w1 API_KEY_NAMESPACE API_KEY_FIELD_KEY "[]"] s1 by simp
  have "metafields w3 (API_KEY_NAMESPACE, API_KEY_FIELD_KEY)
          = metafields w2 (API_KEY_NAMESPACE, API_KEY_FIELD_KEY)"
    using setMetafield_elsewhere [OF field_keys_differ, of w2 "[]"] s2 by simp
  then have m3: "metafields w3 (API_KEY_NAMESPACE, API_KEY_FIELD_KEY) = Some []"
    using m2 by simp
  have p3: "metafields w3 (API_KEY_NAMESPACE, API_KEY_PROVIDER_KEY) = Some []"
    if "goes_through w 2"
  proof -
    have "goes_through w2 0"
      using that goes_through_next [OF f1, of 1] goes_through_next [OF f2, of 0]
      by (simp add: numeral_2_eq_2)
    then show ?thesis
      using setMetafield_accepted [of w2 API_KEY_NAMESPACE API_KEY_PROVIDER_KEY "[]"] s2 by simp
  qed
  show ?thesis
    using m3 p3 getApiKey_blank [OF m3] by (simp add: res)
qed

theorem delete_then_get_witness:
  "fst (deleteApiKey deepseek_shop ''deepseekApiKey'') \<and> goes_through deepseek_shop 1
   \<and> goes_through deepseek_shop 2
   \<and> metafields (snd (deleteApiKey deepseek_shop ''deepseekApiKey''))
        (API_KEY_NAMESPACE, API_KEY_FIELD_KEY) = Some []
   \<and> metafields (snd (deleteApiKey deepseek_shop ''deepseekApiKey''))
        (API_KEY_NAMESPACE, API_KEY_PROVIDER_KEY) = Some []
   \<and> fst (getApiKey stub_crypto None (snd (deleteApiKey deepseek_shop ''deepseekApiKey'')) None)
       = None"
proof -
  have d: "fst (deleteApiKey deepseek_shop ''deepseekApiKey'')"
    by (simp add: deepseek_shop_def shop_defs)
  have g1: "goes_through deepseek_shop 1" and g2: "goes_through deepseek_shop 2"
    by (simp_all add: deepseek_shop_def goes_through_def)
  show ?thesis
    using d g1 g2 delete_then_get [OF d g1, of stub_crypto None None] by simp
qed

text \<open>The claim as stated fails when the store refuses the writes: \<open>deleteApiKey\<close> still
  returns \<open>true\<close>, and \<open>getApiKey\<close> still returns the credential.\<close>

theorem delete_then_get_counterexample:
  "fst (deleteApiKey stubborn_shop ''deepseekApiKey'')
   \<and> fst (getApiKey stub_crypto None (snd (deleteApiKey stubborn_shop ''deepseekApiKey'')) None)
       = Some \<lparr> provider = ''deepseekApiKey'', apiKey = ''sk-abc'' \<rparr>"
  by (simp add: stubborn_shop_def deepseek_shop_def shop_defs decrypt_stub)

lemma getMetafield_read:
  "fst (getMetafield w ns k) = (if goes_through w 0 then metafields w (ns, k) else None)"
  by (cases "faults w") (auto simp: getMetafield_def goes_through_def)

lemma getApiKey_provider:
  assumes "fst (getApiKey c env w q) = Some r"
  shows "provider r =
           (if goes_through w 1 \<and> truthy (metafields w (API_KEY_NAMESPACE, API_KEY_PROVIDER_KEY))
            then the (metafields w (API_KEY_NAMESPACE, API_KEY_PROVIDER_KEY))
            else ''unknown'')"
proof -
  obtain ek w1 where g1: "getMetafield w API_KEY_NAMESPACE API_KEY_FIELD_KEY = (ek, w1)"
    by (cases "getMetafield w API_KEY_NAMESPACE API_KEY_FIELD_KEY")
  obtain sp w2 where g2: "getMetafield w1 API_KEY_NAMESPACE API_KEY_PROVIDER_KEY = (sp, w2)"
    by (cases "getMetafield w1 API_KEY_NAMESPACE API_KEY_PROVIDER_KEY")
  have m1: "metafields w1 = metafields w"
    using getMetafield_frame(1) [of w API_KEY_NAMESPACE API_KEY_FIELD_KEY] g1 by simp
  have "faults w1 = tl (faults w)"
    using call_faults(1) [of w API_KEY_NAMESPACE API_KEY_FIELD_KEY] g1 by simp
  then have t1: "goes_through w1 0 = goes_through w 1"
    using goes_through_next [of w1 w 0] by simp
  have sp: "sp = (if goes_through w 1
                  then metafields w (API_KEY_NAMESPACE, API_KEY_PROVIDER_KEY) else None)"
    using getMetafield_read [of w1 API_KEY_NAMESPACE API_KEY_PROVIDER_KEY] g2 m1 t1 by simp
  have pr: "provider r = (if truthy sp then the sp else ''unknown'')"
    using assms by (auto simp: getApiKey_def g1 g2 split: if_splits sum.splits)
  show ?thesis
    using pr by (simp add: sp)
qed

lemma saveApiKey_provider:
  assumes enc: "encrypt c env iv key = Inr t"
    and accepted: "goes_through w 1"
  shows "fst (saveApiKey c env iv w p key)
         \<and> metafields (snd (saveApiKey c env iv w p key))
             (API_KEY_NAMESPACE, API_KEY_PROVIDER_KEY) = Some p"
proof -
  obtain r1 w1 where s1: "setMetafield w API_KEY_NAMESPACE API_KEY_FIELD_KEY t = (r1, w1)"
    by (cases "setMetafield w API_KEY_NAMESPACE API_KEY_FIELD_KEY t")
  obtain r2 w2 where s2: "setMetafield w1 API_KEY_NAMESPACE API_KEY_PROVIDER_KEY p = (r2, w2)"
    by (cases "setMetafield w1 API_KEY_NAMESPACE API_KEY_PROVIDER_KEY p")
  have "faults w1 = tl (faults w)"
    using call_faults(2) [of w API_KEY_NAMESPACE API_KEY_FIELD_KEY t] s1 by simp
  then have "goes_through w1 0"
    using accepted goes_through_next [of w1 w 0] by simp
  then have "metafields w2 (API_KEY_NAMESPACE, API_KEY_PROVIDER_KEY) = Some p"
    using setMetafield_accepted [of w1 API_KEY_NAMESPACE API_KEY_PROVIDER_KEY p] s2 by simp
  then show ?thesis
    by (simp add: saveApiKey_def enc s1 s2)
qed

text \<open>
  Claim C9, as the code has it. The API keys service does not check the identifier:
  \<open>saveApiKey\<close> stores the provider string it is given, whatever it is, when the encryption
  succeeds and the store accepts the write. A result of \<open>getApiKey\<close> carries the stored
  provider string when the read of the provider metafield (the second call to the store)
  goes through and finds a string that is not empty, and \<open>unknown\<close> in every other case.
\<close>

theorem stored_provider_as_given:
  "(fst (getApiKey c env w q) = Some r \<longrightarrow>
      provider r =
        (if goes_through w 1 \<and> truthy (metafields w (API_KEY_NAMESPACE, API_KEY_PROVIDER_KEY))
         then the (metafields w (API_KEY_NAMESPACE, API_KEY_PROVIDER_KEY))
         else ''unknown''))
   \<and> (encrypt c env iv key = Inr t \<and> goes_through w 1 \<longrightarrow>
        fst (saveApiKey c env iv w p key)
        \<and> metafields (snd (saveApiKey c env iv w p key))
            (API_KEY_NAMESPACE, API_KEY_PROVIDER_KEY) = Some p)"
  using getApiKey_provider saveApiKey_provider by blast

theorem stored_provider_as_given_witness:
  "fst (getApiKey stub_crypto None deepseek_shop None)
     = Some \<lparr> provider = ''deepseekApiKey'', apiKey = ''sk-abc'' \<rparr>
   \<and> provider \<lparr> provider = ''deepseekApiKey'', apiKey = ''sk-abc'' \<rparr>
       = (if goes_through deepseek_shop 1
            \<and> truthy (metafields deepseek_shop (API_KEY_NAMESPACE, API_KEY_PROVIDER_KEY))
          then the (metafields deepseek_shop (API_KEY_NAMESPACE, API_KEY_PROVIDER_KEY))
          else ''unknown'')
   \<and> encrypt stub_crypto None (replicate 16 1) ''sk-abc''
       = Inr ''01010101010101010101010101010101:746c2e626364''
   \<and> goes_through empty_shop 1
   \<and> fst (saveApiKey stub_crypto None (replicate 16 1) empty_shop ''foo'' ''sk-abc'')
   \<and> metafields (snd (saveApiKey stub_crypto None (replicate 16 1) empty_shop ''foo'' ''sk-abc''))
        (API_KEY_NAMESPACE, API_KEY_PROVIDER_KEY) = Some ''foo''"
proof -
  have g: "fst (getApiKey stub_crypto None deepseek_shop None)
             = Some \<lparr> provider = ''deepseekApiKey'', apiKey = ''sk-abc'' \<rparr>"
    by (simp add: deepseek_shop_def shop_defs decrypt_stub)
  have t: "goes_through empty_shop 1"
    by (simp add: empty_shop_def goes_through_def)
  note e = encrypt_stub
  have a: "provider \<lparr> provider = ''deepseekApiKey'', apiKey = ''sk-abc'' \<rparr>
       = (if goes_through deepseek_shop 1
            \<and> truthy (metafields deepseek_shop (API_KEY_NAMESPACE, API_KEY_PROVIDER_KEY))
          then the (metafields deepseek_shop (API_KEY_NAMESPACE, API_KEY_PROVIDER_KEY))
          else ''unknown'')"
    using g stored_provider_as_given
        [of stub_crypto None deepseek_shop None
            "\<lparr> provider = ''deepseekApiKey'', apiKey = ''sk-abc'' \<rparr>"]
    by blast
  have b: "fst (saveApiKey stub_crypto None (replicate 16 1) empty_shop ''foo'' ''sk-abc'')
     \<and> metafields (snd (saveApiKey stub_crypto None (replicate 16 1) empty_shop ''foo'' ''sk-abc''))
        (API_KEY_NAMESPACE, API_KEY_PROVIDER_KEY) = Some ''foo''"
    using e t stored_provider_as_given
        [of stub_crypto None empty_shop None _ "replicate 16 1" "''sk-abc''"
            "''01010101010101010101010101010101:746c2e626364''" "''foo''"]
    by blast
  show ?thesis
    using g a e t b by blast
qed

text \<open>The claim as stated fails twice: the identifier \<open>foo\<close> is stored and returned
  as it is, and a credential whose provider write was refused comes back with the
  provider \<open>unknown\<close>.\<close>

theorem stored_provider_counterexample:
  "metafields (snd (saveApiKey stub_crypto None (replicate 16 1) empty_shop ''foo'' ''sk-abc''))
     (API_KEY_NAMESPACE, API_KEY_PROVIDER_KEY) = Some ''foo''
   \<and> fst (getApiKey stub_crypto None
            (snd (saveApiKey stub_crypto None (replicate 16 1) empty_shop ''foo'' ''sk-abc''))
            None)
       = Some \<lparr> provider = ''foo'', apiKey = ''sk-abc'' \<rparr>
   \<and> fst (getApiKey stub_crypto None
            (snd (saveApiKey stub_crypto None (replicate 16 1) flaky_shop ''openaiApiKey''
                    ''sk-abc''))
            None)
       = Some \<lparr> provider = ''unknown'', apiKey = ''sk-abc'' \<rparr>"
  by (simp add: empty_shop_def flaky_shop_def shop_defs encrypt_stub decrypt_stub)

section \<open>Properties of the content generation facade\<close>

text \<open>
  Claim C4. When \<open>getApiKey\<close> returns \<open>null\<close> for the session, \<open>generateProductContent\<close> of
  the facade returns the negative result with the code \<open>NO_API_KEY\<close>, and no provider
  method has been called.
\<close>

theorem generate_without_credential:
  assumes "fst (getApiKey c env w None) = None"
  shows "fst (facade_generateProductContent c env remote w productData customPrompt options)
           = \<lparr> success = False, content = None,
               error = Some ''No API key configured. Please configure an API key in the settings.'',
               errorCode = Some ''NO_API_KEY'', metadata = None \<rparr>
         \<and> invoked (snd (facade_generateProductContent c env remote w productData customPrompt
                          options)) = invoked w"
proof -
  obtain w1 where g: "getApiKey c env w None = (None, w1)"
    using assms by (cases "getApiKey c env w None") simp
  have "invoked w1 = invoked w"
    using getApiKey_frame [of c env w None] g by simp
  then show ?thesis
    by (simp add: facade_generateProductContent_def g failure_def)
qed

theorem generate_without_credential_witness:
  "fst (getApiKey stub_crypto None empty_shop None) = None
   \<and> errorCode (fst (facade_generateProductContent stub_crypto None no_reply empty_shop
                        \<lparr> product_id = ''gid://shopify/Product/1'', product_title = ''Scarf'',
                          product_description = [], product_images = [] \<rparr>
                        ''Be brief'' options0)) = Some ''NO_API_KEY''
   \<and> invoked (snd (facade_generateProductContent stub_crypto None no_reply empty_shop
                      \<lparr> product_id = ''gid://shopify/Product/1'', product_title = ''Scarf'',
                        product_description = [], product_images = [] \<rparr>
                      ''Be brief'' options0)) = []"
proof -
  have k: "fst (getApiKey stub_crypto None empty_shop None) = None"
    by (simp add: empty_shop_def shop_defs)
  have "invoked empty_shop = []"
    by (simp add: empty_shop_def)
  then show ?thesis
    using k generate_without_credential
            [OF k, of no_reply
               "\<lparr> product_id = ''gid://shopify/Product/1'', product_title = ''Scarf'',
                  product_description = [], product_images = [] \<rparr>"
               "''Be brief''" options0]
    by simp
qed

text \<open>
  Claim C2, as the code has it. Each provider's \<open>regenerateContent\<close> answers a previous
  result that failed, or has no content, with the code \<open>NO_PREVIOUS_CONTENT\<close>, for every
  API key, feedback and options. The facade looks the credential up first: with none
  stored its answer is \<open>NO_API_KEY\<close>, whatever the previous result is.
\<close>

theorem regenerate_needs_previous_content:
  "(\<not> success previousResult \<or> content previousResult = None \<longrightarrow>
      openai_regenerateContent remote key previousResult feedback options
        = \<lparr> success = False, content = None,
            error = Some ''No previous content to regenerate'',
            errorCode = Some ''NO_PREVIOUS_CONTENT'', metadata = None \<rparr>
      \<and> deepseek_regenerateContent remote key previousResult feedback options
        = \<lparr> success = False, content = None,
            error = Some ''No previous content to regenerate'',
            errorCode = Some ''NO_PREVIOUS_CONTENT'', metadata = None \<rparr>)
   \<and> (fst (getApiKey c env w None) = None \<longrightarrow>
        fst (facade_regenerateContent c env remote w anyResult feedback options)
          = \<lparr> success = False, content = None,
              error = Some
                ''No API key configured. Please configure an API key in the settings.'',
              errorCode = Some ''NO_API_KEY'', metadata = None \<rparr>)"
proof -
  have "fst (facade_regenerateContent c env remote w anyResult feedback options)
          = failure ''No API key configured. Please configure an API key in the settings.''
              ''NO_API_KEY''"
    if nokey: "fst (getApiKey c env w None) = None"
  proof -
    obtain w1 where g: "getApiKey c env w None = (None, w1)"
      using nokey by (cases "getApiKey c env w None") simp
    show ?thesis
      by (simp add: facade_regenerateContent_def g)
  qed
  then show ?thesis
    by (auto simp: openai_regenerateContent_def deepseek_regenerateContent_def failure_def)
qed

theorem regenerate_needs_previous_content_witness:
  "content (failure ''Network Error'' ''OPENAI_ERROR'') = None
   \<and> openai_regenerateContent no_reply ''sk-abc'' (failure ''Network Error'' ''OPENAI_ERROR'')
       ''shorter'' options0
     = failure ''No previous content to regenerate'' ''NO_PREVIOUS_CONTENT''
   \<and> deepseek_regenerateContent no_reply ''sk-abc'' (failure ''Network Error'' ''OPENAI_ERROR'')
       ''shorter'' options0
     = failure ''No previous content to regenerate'' ''NO_PREVIOUS_CONTENT''
   \<and> fst (getApiKey stub_crypto None empty_shop None) = None
   \<and> fst (facade_regenerateContent stub_crypto None no_reply empty_shop
             (generated ''gpt-4'' \<lparr> text_of = None, usage = None \<rparr>) ''shorter'' options0)
       = failure ''No API key configured. Please configure an API key in the settings.''
           ''NO_API_KEY''"
proof -
  have h: "\<not> success (failure ''Network Error'' ''OPENAI_ERROR'')
             \<or> content (failure ''Network Error'' ''OPENAI_ERROR'') = None"
    by (simp add: failure_def)
  have k: "fst (getApiKey stub_crypto None empty_shop None) = None"
    by (simp add: empty_shop_def shop_defs)
  show ?thesis
    using h k regenerate_needs_previous_content
            [of "failure ''Network Error'' ''OPENAI_ERROR''" no_reply "''sk-abc''"
                "''shorter''" options0 stub_crypto None empty_shop
                "generated ''gpt-4'' \<lparr> text_of = None, usage = None \<rparr>"]
    by (simp add: failure_def)
qed

text \<open>The claim as stated fails at the facade: a shop without a credential is answered
  with \<open>NO_API_KEY\<close>, although the previous result is a failure.\<close>

theorem regenerate_counterexample:
  "errorCode (fst (facade_regenerateContent stub_crypto None no_reply empty_shop
                     (failure ''Network Error'' ''OPENAI_ERROR'') ''shorter'' options0))
     = Some ''NO_API_KEY''
   \<and> errorCode (fst (facade_regenerateContent stub_crypto None no_reply empty_shop
                     (failure ''Network Error'' ''OPENAI_ERROR'') ''shorter'' options0))
     \<noteq> Some ''NO_PREVIOUS_CONTENT''"
  by (simp add: facade_regenerateContent_def empty_shop_def shop_defs failure_def)

end
